theory Spec2Isabelle
  imports Complex_Main "HOL-Library.Word"
begin

unbundle bit_operations_syntax

section \<open>The joystick controller of donkeycar/parts/controller.py\<close>

text \<open>
  A shallow embedding of the two classes of \<^verbatim>\<open>controller.py\<close>: \<^verbatim>\<open>Joystick\<close> (the
  decoder of 8-byte event records) and \<^verbatim>\<open>JoystickController\<close> (the state machine that
  turns decoded events into angle, throttle, mode and recording).

  Conventions of the model:
  \<^item> Python's \<^verbatim>\<open>float\<close> is modelled by \<^typ>\<open>real\<close>: every arithmetic operation is exact.
    Equalities between computed values are therefore the ideal ones, which the program
    meets up to the rounding of IEEE doubles.
  \<^item> Python's \<^verbatim>\<open>int\<close> is \<^typ>\<open>int\<close> (or \<^typ>\<open>nat\<close> for a byte used as an index).
  \<^item> \<^verbatim>\<open>None\<close> is \<^term>\<open>None\<close>: a result of \<^verbatim>\<open>poll\<close> is four optional values.
  \<^item> An exception is a value \<^term>\<open>Inl e\<close> of the result; \<^verbatim>\<open>print\<close> and \<^verbatim>\<open>time.sleep\<close>
    change no state and are left out.
\<close>

datatype error = IndexError | StructError | TypeError | FileNotFoundError

subsection \<open>Joystick: the capability tables\<close>

record joystick =
  axis_states :: "string \<rightharpoonup> real"
  button_states :: "string \<rightharpoonup> int"
  axis_map :: "string list"
  button_map :: "string list"

text \<open>\<^verbatim>\<open>Joystick.__init__\<close>: empty caches and maps.\<close>

definition Joystick :: joystick where
  "Joystick = \<lparr>axis_states = Map.empty, button_states = Map.empty,
     axis_map = [], button_map = []\<rparr>"

text \<open>The constant tables \<^verbatim>\<open>self.axis_names\<close> and \<^verbatim>\<open>self.button_names\<close>.\<close>

definition axis_names :: "(nat \<times> string) list" where
  "axis_names =
    [(0x00, ''lx''), (0x01, ''ly''), (0x02, ''l2''), (0x03, ''rx''), (0x04, ''ry''),
     (0x05, ''r2''), (0x10, ''dpadx''), (0x11, ''dpady'')]"

definition button_names :: "(nat \<times> string) list" where
  "button_names =
    [(0x130, ''cross''), (0x131, ''circle''), (0x133, ''triangle''), (0x134, ''square''),
     (0x136, ''l1''), (0x137, ''r1''), (0x138, ''l2''), (0x139, ''r2''),
     (0x13a, ''share''), (0x13b, ''options''), (0x13c, ''ps''), (0x13d, ''thumbl''),
     (0x13e, ''thumbr'')]"

text \<open>Lower-case hexadecimal, as the conversion \<^verbatim>\<open>%x\<close> prints a non-negative integer.\<close>

definition hex_digit :: "nat \<Rightarrow> char" where
  "hex_digit d = ''0123456789abcdef'' ! (d mod 16)"

fun hex_of_nat :: "nat \<Rightarrow> string" where
  "hex_of_nat n =
     (if n < 16 then [hex_digit n] else hex_of_nat (n div 16) @ [hex_digit (n mod 16)])"

declare hex_of_nat.simps [simp del]

text \<open>\<^verbatim>\<open>'%0wx' % n\<close>: padded with zeros on the left to at least \<open>w\<close> characters.\<close>

definition hex_pad :: "nat \<Rightarrow> nat \<Rightarrow> string" where
  "hex_pad w n = replicate (w - length (hex_of_nat n)) (CHR ''0'') @ hex_of_nat n"

text \<open>\<^verbatim>\<open>self.axis_names.get(axis, 'unknown(0x%02x)' % axis)\<close> and the same for buttons.\<close>

definition axis_name_of :: "nat \<Rightarrow> string" where
  "axis_name_of a =
     (case map_of axis_names a of
        Some n \<Rightarrow> n
      | None \<Rightarrow> ''unknown(0x'' @ hex_pad 2 a @ '')'')"

definition button_name_of :: "nat \<Rightarrow> string" where
  "button_name_of b =
     (case map_of button_names b of
        Some n \<Rightarrow> n
      | None \<Rightarrow> ''unknown(0x'' @ hex_pad 3 b @ '')'')"

text \<open>
  What the device answers to the ioctl calls of \<^verbatim>\<open>Joystick.init\<close>: the counts of axes and
  buttons and the two map buffers (64 bytes for the axes, 200 half-words for the buttons).
\<close>

record device =
  num_axes :: nat
  axmap_buf :: "nat list"
  num_buttons :: nat
  btnmap_buf :: "nat list"

text \<open>The two \<^verbatim>\<open>for\<close> loops of \<^verbatim>\<open>Joystick.init\<close>.\<close>

fun init_axes :: "nat list \<Rightarrow> joystick \<Rightarrow> joystick" where
  "init_axes [] j = j"
| "init_axes (a # as) j =
     init_axes as
       (j\<lparr>axis_map := axis_map j @ [axis_name_of a],
          axis_states := (axis_states j)(axis_name_of a \<mapsto> 0)\<rparr>)"

fun init_buttons :: "nat list \<Rightarrow> joystick \<Rightarrow> joystick" where
  "init_buttons [] j = j"
| "init_buttons (b # bs) j =
     init_buttons bs
       (j\<lparr>button_map := button_map j @ [button_name_of b],
          button_states := (button_states j)(button_name_of b \<mapsto> 0)\<rparr>)"

definition init :: "joystick \<Rightarrow> device \<Rightarrow> joystick" where
  "init j dev =
     init_buttons (take (num_buttons dev) (btnmap_buf dev))
       (init_axes (take (num_axes dev) (axmap_buf dev)) j)"

subsection \<open>Joystick.poll: decoding one record\<close>

text \<open>
  \<^verbatim>\<open>struct.unpack('IhBB', evbuf)\<close> on a little-endian machine: an unsigned 32-bit time
  stamp, a signed 16-bit value, the event type byte and the index byte. A buffer that is
  not 8 bytes long raises \<^verbatim>\<open>struct.error\<close>.
\<close>

definition le_u32 :: "8 word list \<Rightarrow> nat" where
  "le_u32 b = unat (b ! 0) + 256 * unat (b ! 1) + 65536 * unat (b ! 2) + 16777216 * unat (b ! 3)"

definition le_i16 :: "8 word \<Rightarrow> 8 word \<Rightarrow> int" where
  "le_i16 lo hi =
     (let u = int (unat lo) + 256 * int (unat hi)
      in if u < 32768 then u else u - 65536)"

definition unpack_IhBB :: "8 word list \<Rightarrow> error + (nat \<times> int \<times> 8 word \<times> nat)" where
  "unpack_IhBB b =
     (if length b \<noteq> 8 then Inl StructError
      else Inr (le_u32 b, le_i16 (b ! 4) (b ! 5), b ! 6, unat (b ! 7)))"

text \<open>The four values \<^verbatim>\<open>poll\<close> returns: \<^verbatim>\<open>button, button_state, axis, axis_val\<close>.\<close>

record poll_result =
  button :: "string option"
  button_state :: "int option"
  axis :: "string option"
  axis_val :: "real option"

definition no_event :: poll_result where
  "no_event = \<lparr>button = None, button_state = None, axis = None, axis_val = None\<rparr>"

text \<open>
  The branch \<^verbatim>\<open>if typev & 0x01\<close>. \<^verbatim>\<open>self.button_map[number]\<close> raises \<^verbatim>\<open>IndexError\<close> when
  \<open>number\<close> is not an index of the list; an empty name is returned without a state.
\<close>

definition poll_button ::
  "int \<Rightarrow> nat \<Rightarrow> poll_result \<times> joystick \<Rightarrow> error + poll_result \<times> joystick" where
  "poll_button val number rj =
     (case rj of (r, j) \<Rightarrow>
        if number < length (button_map j) then
          (let b = button_map j ! number in
           if b \<noteq> [] then
             Inr (r\<lparr>button := Some b, button_state := Some val\<rparr>,
                  j\<lparr>button_states := (button_states j)(b \<mapsto> val)\<rparr>)
           else Inr (r\<lparr>button := Some b\<rparr>, j))
        else Inl IndexError)"

text \<open>The branch \<^verbatim>\<open>if typev & 0x02\<close>, with \<^verbatim>\<open>fvalue = value / 32767.0\<close>.\<close>

definition poll_axis ::
  "int \<Rightarrow> nat \<Rightarrow> poll_result \<times> joystick \<Rightarrow> error + poll_result \<times> joystick" where
  "poll_axis val number rj =
     (case rj of (r, j) \<Rightarrow>
        if number < length (axis_map j) then
          (let a = axis_map j ! number in
           if a \<noteq> [] then
             (let fvalue = real_of_int val / 32767 in
              Inr (r\<lparr>axis := Some a, axis_val := Some fvalue\<rparr>,
                   j\<lparr>axis_states := (axis_states j)(a \<mapsto> fvalue)\<rparr>))
           else Inr (r\<lparr>axis := Some a\<rparr>, j))
        else Inl IndexError)"

text \<open>
  \<^verbatim>\<open>Joystick.poll\<close>, given the bytes \<^verbatim>\<open>self.jsdev.read(8)\<close> returned. An empty read decodes
  to no event; a record with bit \<open>0x80\<close> returns before anything is looked up.
\<close>

definition poll :: "joystick \<Rightarrow> 8 word list \<Rightarrow> error + poll_result \<times> joystick" where
  "poll j evbuf =
     (if evbuf = [] then Inr (no_event, j)
      else
        case unpack_IhBB evbuf of
          Inl e \<Rightarrow> Inl e
        | Inr (tval, val, typev, number) \<Rightarrow>
            if typev AND 0x80 \<noteq> 0 then Inr (no_event, j)
            else
              case (if typev AND 0x01 \<noteq> 0 then poll_button val number (no_event, j)
                    else Inr (no_event, j)) of
                Inl e \<Rightarrow> Inl e
              | Inr rj \<Rightarrow>
                  if typev AND 0x02 \<noteq> 0 then poll_axis val number rj else Inr rj)"

subsection \<open>JoystickController\<close>

record controller =
  angle :: real
  throttle :: real
  mode :: string
  poll_delay :: real
  running :: bool
  max_throttle :: real
  steering_axis :: string
  throttle_axis :: string
  steering_scale :: real
  throttle_scale :: real
  recording :: bool
  constant_throttle :: bool
  auto_record_on_throttle :: bool

text \<open>
  \<^verbatim>\<open>JoystickController.__init__\<close>, with its arguments in the source's order (the device
  path only names the file to open). The defaults of the source are
  \<open>0.0, 1.0, 'rx', 'ly', 1.0, -1.0, True\<close>.
\<close>

definition JoystickController ::
  "real \<Rightarrow> real \<Rightarrow> string \<Rightarrow> string \<Rightarrow> real \<Rightarrow> real \<Rightarrow> bool \<Rightarrow> controller" where
  "JoystickController pd mt sa ta ss ts ar =
     \<lparr>angle = 0, throttle = 0, mode = ''user'', poll_delay = pd, running = True,
      max_throttle = mt, steering_axis = sa, throttle_axis = ta, steering_scale = ss,
      throttle_scale = ts, recording = False, constant_throttle = False,
      auto_record_on_throttle = ar\<rparr>"

definition on_throttle_changes :: "controller \<Rightarrow> controller" where
  "on_throttle_changes c =
     (if auto_record_on_throttle c
      then c\<lparr>recording := (throttle c \<noteq> 0 \<and> mode c = ''user'')\<rparr>
      else c)"

text \<open>
  Python's \<^verbatim>\<open>round(x, ndigits)\<close> on a float: the closest multiple of \<open>10 ^ -ndigits\<close>, a tie
  going to the even multiple.
\<close>

definition py_round :: "real \<Rightarrow> nat \<Rightarrow> real" where
  "py_round x nd =
     (let y = x * 10 ^ nd; f = \<lfloor>y\<rfloor>; d = y - of_int f
      in of_int (if d < 1 / 2 then f else if 1 / 2 < d then f + 1
                 else if even f then f else f + 1) / 10 ^ nd)"

text \<open>
  The body of the loop \<^verbatim>\<open>while self.running\<close> of \<^verbatim>\<open>update\<close> is a sequence of \<^verbatim>\<open>if\<close>
  statements, one handler each, run in the source's order on the values \<^verbatim>\<open>poll\<close>
  returned. Arithmetic or an ordering comparison on \<^verbatim>\<open>None\<close> raises \<^verbatim>\<open>TypeError\<close>.
\<close>

definition steering_h :: "poll_result \<Rightarrow> controller \<Rightarrow> error + controller" where
  "steering_h r c =
     (if axis r = Some (steering_axis c) then
        (case axis_val r of
           None \<Rightarrow> Inl TypeError
         | Some v \<Rightarrow> Inr (c\<lparr>angle := steering_scale c * v\<rparr>))
      else Inr c)"

definition throttle_h :: "poll_result \<Rightarrow> controller \<Rightarrow> error + controller" where
  "throttle_h r c =
     (if axis r = Some (throttle_axis c) then
        (case axis_val r of
           None \<Rightarrow> Inl TypeError
         | Some v \<Rightarrow>
             Inr (on_throttle_changes (c\<lparr>throttle := throttle_scale c * v * max_throttle c\<rparr>)))
      else Inr c)"

definition dpadx_h :: "poll_result \<Rightarrow> controller \<Rightarrow> error + controller" where
  "dpadx_h r c =
     (if axis r = Some ''dpadx'' then
        (case axis_val r of
           None \<Rightarrow> Inl TypeError
         | Some v \<Rightarrow>
             if v \<noteq> 0 then
               (if v > 0
                then Inr (c\<lparr>steering_scale := py_round (min 1 (steering_scale c + 0.05)) 2\<rparr>)
                else Inr (c\<lparr>steering_scale := py_round (max 0 (steering_scale c - 0.05)) 2\<rparr>))
             else Inr c)
      else Inr c)"

definition dpady_h :: "poll_result \<Rightarrow> controller \<Rightarrow> error + controller" where
  "dpady_h r c =
     (if axis r = Some ''dpady'' then
        (case axis_val r of
           None \<Rightarrow> Inl TypeError
         | Some v \<Rightarrow>
             if v \<noteq> 0 then
               (if v < 0
                then Inr (c\<lparr>throttle_scale := py_round (max (- 1) (throttle_scale c - 0.05)) 2\<rparr>)
                else Inr (c\<lparr>throttle_scale := py_round (min 0 (throttle_scale c + 0.05)) 2\<rparr>))
             else Inr c)
      else Inr c)"

text \<open>A button handler fires on \<^verbatim>\<open>button == name and button_state == 1\<close>.\<close>

definition pressed :: "poll_result \<Rightarrow> string \<Rightarrow> bool" where
  "pressed r name = (button r = Some name \<and> button_state r = Some 1)"

definition option_h :: "poll_result \<Rightarrow> controller \<Rightarrow> error + controller" where
  "option_h r c =
     (if pressed r ''option'' then
        (if mode c = ''user'' then Inr (c\<lparr>mode := ''local_angle''\<rparr>)
         else if mode c = ''local_angle'' then Inr (c\<lparr>mode := ''local''\<rparr>)
         else Inr (c\<lparr>mode := ''user''\<rparr>))
      else Inr c)"

definition circle_h :: "poll_result \<Rightarrow> controller \<Rightarrow> error + controller" where
  "circle_h r c =
     (if pressed r ''circle'' then
        (if auto_record_on_throttle c then Inr c
         else if recording c then Inr (c\<lparr>recording := False\<rparr>)
         else Inr (c\<lparr>recording := True\<rparr>))
      else Inr c)"

text \<open>
  The cascade shared by the two max-throttle handlers: with constant throttle on, the
  throttle follows the new limit and the auto-record rule runs.
\<close>

definition constant_cascade :: "controller \<Rightarrow> controller" where
  "constant_cascade c =
     (if constant_throttle c then on_throttle_changes (c\<lparr>throttle := max_throttle c\<rparr>) else c)"

definition r1_h :: "poll_result \<Rightarrow> controller \<Rightarrow> error + controller" where
  "r1_h r c =
     (if pressed r ''r1'' then
        Inr (constant_cascade (c\<lparr>max_throttle := py_round (min 1 (max_throttle c + 0.01)) 2\<rparr>))
      else Inr c)"

definition l1_h :: "poll_result \<Rightarrow> controller \<Rightarrow> error + controller" where
  "l1_h r c =
     (if pressed r ''l1'' then
        Inr (constant_cascade (c\<lparr>max_throttle := py_round (max 0 (max_throttle c - 0.01)) 2\<rparr>))
      else Inr c)"

definition r2_h :: "poll_result \<Rightarrow> controller \<Rightarrow> error + controller" where
  "r2_h r c =
     (if pressed r ''r2'' then
        Inr (c\<lparr>throttle_scale := py_round (min 0 (throttle_scale c + 0.05)) 2\<rparr>)
      else Inr c)"

definition l2_h :: "poll_result \<Rightarrow> controller \<Rightarrow> error + controller" where
  "l2_h r c =
     (if pressed r ''l2'' then
        Inr (c\<lparr>throttle_scale := py_round (max (- 1) (throttle_scale c - 0.05)) 2\<rparr>)
      else Inr c)"

definition triangle_h :: "poll_result \<Rightarrow> controller \<Rightarrow> error + controller" where
  "triangle_h r c =
     (if pressed r ''triangle'' then
        (if constant_throttle c
         then Inr (on_throttle_changes (c\<lparr>constant_throttle := False, throttle := 0\<rparr>))
         else Inr (on_throttle_changes (c\<lparr>constant_throttle := True, throttle := max_throttle c\<rparr>)))
      else Inr c)"

text \<open>Statements in sequence: the first exception ends the run.\<close>

fun run_all :: "('s \<Rightarrow> error + 's) list \<Rightarrow> 's \<Rightarrow> error + 's" where
  "run_all [] s = Inr s"
| "run_all (h # hs) s = (case h s of Inl e \<Rightarrow> Inl e | Inr s' \<Rightarrow> run_all hs s')"

definition handlers :: "poll_result \<Rightarrow> (controller \<Rightarrow> error + controller) list" where
  "handlers r =
     [steering_h r, throttle_h r, dpadx_h r, dpady_h r, option_h r, circle_h r,
      r1_h r, l1_h r, r2_h r, l2_h r, triangle_h r]"

definition update_body :: "poll_result \<Rightarrow> controller \<Rightarrow> error + controller" where
  "update_body r = run_all (handlers r)"

text \<open>
  One iteration of the loop: poll the joystick (\<^verbatim>\<open>self.js\<close>, carried beside the
  controller) on the bytes read, then run the handlers.
\<close>

definition update_iter ::
  "controller \<times> joystick \<Rightarrow> 8 word list \<Rightarrow> error + controller \<times> joystick" where
  "update_iter cj evbuf =
     (case cj of (c, j) \<Rightarrow>
        case poll j evbuf of
          Inl e \<Rightarrow> Inl e
        | Inr (r, j') \<Rightarrow>
            (case update_body r c of Inl e \<Rightarrow> Inl e | Inr c' \<Rightarrow> Inr (c', j')))"

text \<open>The loop over the successive reads of the device.\<close>

fun update_loop ::
  "controller \<times> joystick \<Rightarrow> 8 word list list \<Rightarrow> error + controller \<times> joystick" where
  "update_loop cj [] = Inr cj"
| "update_loop cj (evbuf # rest) =
     (case update_iter cj evbuf of Inl e \<Rightarrow> Inl e | Inr cj' \<Rightarrow> update_loop cj' rest)"

text \<open>The handlers applied to a sequence of poll results, for properties of any sequence.\<close>

fun update_all :: "controller \<Rightarrow> poll_result list \<Rightarrow> error + controller" where
  "update_all c [] = Inr c"
| "update_all c (r # rs) =
     (case update_body r c of Inl e \<Rightarrow> Inl e | Inr c' \<Rightarrow> update_all c' rs)"

text \<open>A poll result that carries one button change and no axis.\<close>

definition button_event :: "string \<Rightarrow> int \<Rightarrow> poll_result" where
  "button_event name st =
     \<lparr>button = Some name, button_state = Some st, axis = None, axis_val = None\<rparr>"

definition axis_event :: "string \<Rightarrow> real \<Rightarrow> poll_result" where
  "axis_event name v =
     \<lparr>button = None, button_state = None, axis = Some name, axis_val = Some v\<rparr>"

subsection \<open>A concrete device and concrete records\<close>

text \<open>
  A PS4 pad as the kernel reports it: eight axes and thirteen buttons, the buffers filled
  with zeros beyond the counts.
\<close>

definition ps4_device :: device where
  "ps4_device =
     \<lparr>num_axes = 8,
      axmap_buf = [0x00, 0x01, 0x02, 0x03, 0x04, 0x05, 0x10, 0x11] @ replicate 56 0,
      num_buttons = 13,
      btnmap_buf = [0x130, 0x131, 0x133, 0x134, 0x136, 0x137, 0x138, 0x139, 0x13a, 0x13b,
                    0x13c, 0x13d, 0x13e] @ replicate 187 0\<rparr>"

definition ps4 :: joystick where
  "ps4 = init Joystick ps4_device"

text \<open>The controller as the source's default arguments construct it.\<close>

definition default_controller :: controller where
  "default_controller = JoystickController 0 1 ''rx'' ''ly'' 1 (- 1) True"

text \<open>The same controller with the throttle limit 0.3.\<close>

definition throttle_03 :: controller where
  "throttle_03 = JoystickController 0 0.3 ''rx'' ''ly'' 1 (- 1) True"


text \<open>
  The default controller after the throttle axis \<^verbatim>\<open>ly\<close> was pushed fully forward (value
  \<open>-1\<close>): throttle 1, recording on.
\<close>

definition moving_user :: controller where
  "moving_user = default_controller\<lparr>throttle := 1, recording := True\<rparr>"

subsection \<open>The scale fields\<close>

text \<open>A number with at most two decimals: a multiple of 0.01.\<close>

definition two_decimals :: "real \<Rightarrow> bool" where
  "two_decimals x = (x * 100 = of_int \<lfloor>x * 100\<rfloor>)"

text \<open>The ranges of the three adjustable fields.\<close>

definition scales_ok :: "controller \<Rightarrow> bool" where
  "scales_ok c =
     (0 \<le> steering_scale c \<and> steering_scale c \<le> 1 \<and>
      - 1 \<le> throttle_scale c \<and> throttle_scale c \<le> 0 \<and>
      0 \<le> max_throttle c \<and> max_throttle c \<le> 1)"

text \<open>
  The fields are in range, and each is the one of the state \<open>c\<close> or has two decimals.
\<close>

definition scales_inv :: "controller \<Rightarrow> controller \<Rightarrow> bool" where
  "scales_inv c x =
     (scales_ok x \<and>
      (steering_scale x = steering_scale c \<or> two_decimals (steering_scale x)) \<and>
      (throttle_scale x = throttle_scale c \<or> two_decimals (throttle_scale x)) \<and>
      (max_throttle x = max_throttle c \<or> two_decimals (max_throttle x)))"

text \<open>
  A sequence of adjustments: dpad right (at the limit 1), dpad left, dpad down, a press of
  \<^verbatim>\<open>l1\<close> and a press of \<^verbatim>\<open>r2\<close>.
\<close>

definition adjustments :: "poll_result list" where
  "adjustments =
     [axis_event ''dpadx'' 1, axis_event ''dpadx'' (- 1), axis_event ''dpady'' 1,
      button_event ''l1'' 1, button_event ''r2'' 1]"

subsection \<open>The caches of the joystick over a sequence of reads\<close>

text \<open>Successive calls of \<^verbatim>\<open>poll\<close>, one per read; the results in the order of the calls.\<close>

fun poll_all :: "joystick \<Rightarrow> 8 word list list \<Rightarrow> error + poll_result list \<times> joystick" where
  "poll_all j [] = Inr ([], j)"
| "poll_all j (evbuf # rest) =
     (case poll j evbuf of
        Inl e \<Rightarrow> Inl e
      | Inr (r, j') \<Rightarrow>
          (case poll_all j' rest of Inl e \<Rightarrow> Inl e | Inr (rs, j'') \<Rightarrow> Inr (r # rs, j'')))"

text \<open>
  The value most recently decoded for the axis \<open>n\<close> in a sequence of results, and \<open>d\<close>
  when there is none; the same for the state of a button.
\<close>

fun latest_axis_val :: "poll_result list \<Rightarrow> string \<Rightarrow> real \<Rightarrow> real" where
  "latest_axis_val [] n d = d"
| "latest_axis_val (r # rs) n d =
     latest_axis_val rs n
       (if axis r = Some n then (case axis_val r of Some v \<Rightarrow> v | None \<Rightarrow> d) else d)"

fun latest_button_state :: "poll_result list \<Rightarrow> string \<Rightarrow> int \<Rightarrow> int" where
  "latest_button_state [] n d = d"
| "latest_button_state (r # rs) n d =
     latest_button_state rs n
       (if button r = Some n then (case button_state r of Some v \<Rightarrow> v | None \<Rightarrow> d) else d)"

text \<open>
  The PS4 pad after the record of the axis \<^verbatim>\<open>rx\<close> at -32768 and the press of
  \<^verbatim>\<open>options\<close>.
\<close>

definition ps4_polled :: joystick where
  "ps4_polled =
     ps4\<lparr>axis_states := (axis_states ps4)(''rx'' \<mapsto> - 32768 / 32767),
         button_states := (button_states ps4)(''options'' \<mapsto> 1)\<rparr>"

section \<open>Properties\<close>

lemmas handler_defs = steering_h_def throttle_h_def dpadx_h_def dpady_h_def option_h_def
  circle_h_def r1_h_def l1_h_def r2_h_def l2_h_def triangle_h_def

lemma update_body_no_event: "update_body no_event c = Inr c"
  by (simp add: update_body_def handlers_def no_event_def handler_defs pressed_def)

subsection \<open>Running the handlers in sequence\<close>

lemma run_all_invariant:
  assumes "run_all hs s = Inr s'" and "P s"
    and "\<And>h x y. h \<in> set hs \<Longrightarrow> h x = Inr y \<Longrightarrow> P x \<Longrightarrow> P y"
  shows "P s'"
  using assms
proof (induction hs arbitrary: s)
  case Nil
  then show ?case by simp
next
  case (Cons h hs)
  from Cons.prems(1) obtain x where hx: "h s = Inr x" and rest: "run_all hs x = Inr s'"
    by (auto split: sum.splits)
  have "P x"
    using Cons.prems(3) [of h s x] hx Cons.prems(2) by simp
  show ?case
  proof (rule Cons.IH [OF rest \<open>P x\<close>])
    fix g u w
    assume "g \<in> set hs" "g u = Inr w" "P u"
    then show "P w"
      using Cons.prems(3) [of g u w] by simp
  qed
qed

lemma run_all_total:
  assumes "\<And>h x. h \<in> set hs \<Longrightarrow> \<exists>y. h x = Inr y"
  shows "\<exists>s'. run_all hs s = Inr s'"
  using assms
proof (induction hs arbitrary: s)
  case Nil
  then show ?case by simp
next
  case (Cons h hs)
  from Cons.prems [of h s] obtain x where hx: "h s = Inr x"
    by auto
  from Cons.IH [of x] Cons.prems obtain s' where "run_all hs x = Inr s'"
    by auto
  with hx show ?case by auto
qed

text \<open>
  No handler raises when the result of \<^verbatim>\<open>poll\<close> carries a value with its axis, which
  is the case for every axis whose name is not empty.
\<close>

lemma handler_total:
  assumes "axis r = None \<or> axis_val r = Some v" and "h \<in> set (handlers r)"
  shows "\<exists>y. h x = Inr y"
  using assms by (auto simp: handlers_def handler_defs)

lemma update_body_total:
  assumes "axis r = None \<or> axis_val r = Some v"
  shows "\<exists>c'. update_body r c = Inr c'"
proof -
  have "\<exists>s'. run_all (handlers r) c = Inr s'"
    by (rule run_all_total) (rule handler_total [OF assms])
  then show ?thesis
    by (simp add: update_body_def)
qed

lemma update_body_split:
  "update_body r c =
     (case run_all (take 4 (handlers r)) c of
        Inl e \<Rightarrow> Inl e
      | Inr x \<Rightarrow>
          (case option_h r x of Inl e \<Rightarrow> Inl e | Inr y \<Rightarrow> run_all (drop 5 (handlers r)) y))"
  by (simp add: update_body_def handlers_def split: sum.splits)

subsection \<open>The concrete device\<close>

lemma ps4_axis_map:
  "axis_map ps4 = [''lx'', ''ly'', ''l2'', ''rx'', ''ry'', ''r2'', ''dpadx'', ''dpady'']"
  by (simp add: ps4_def init_def Joystick_def ps4_device_def axis_name_of_def axis_names_def
      button_name_of_def button_names_def)

lemma ps4_button_map:
  "button_map ps4 =
     [''cross'', ''circle'', ''triangle'', ''square'', ''l1'', ''r1'', ''l2'', ''r2'',
      ''share'', ''options'', ''ps'', ''thumbl'', ''thumbr'']"
  by (simp add: ps4_def init_def Joystick_def ps4_device_def axis_name_of_def axis_names_def
      button_name_of_def button_names_def)

subsection \<open>Initialisation records\<close>

text \<open>
  C8. A record whose event type has bit \<open>0x80\<close> set decodes to no event, whatever its
  other bits: \<^verbatim>\<open>poll\<close> returns four \<^verbatim>\<open>None\<close>s and leaves the joystick's caches as they
  were, and the iteration of \<^verbatim>\<open>update\<close> on it leaves every field of the controller
  unchanged.
\<close>

theorem init_record_ignored:
  assumes "unpack_IhBB evbuf = Inr (tval, val, typev, number)"
    and "typev AND 0x80 \<noteq> 0"
  shows "poll j evbuf = Inr (no_event, j) \<and> update_iter (c, j) evbuf = Inr (c, j)"
proof -
  from assms(1) have "evbuf \<noteq> []"
    by (auto simp: unpack_IhBB_def)
  with assms have "poll j evbuf = Inr (no_event, j)"
    by (simp add: poll_def)
  then show ?thesis
    by (simp add: update_iter_def update_body_no_event)
qed

theorem init_record_ignored_witness:
  "unpack_IhBB [0, 0, 0, 0, 1, 0, 0x81, 0] = Inr (0, 1, 0x81, 0) \<and>
   (0x81 :: 8 word) AND 0x80 \<noteq> 0 \<and>
   poll ps4 [0, 0, 0, 0, 1, 0, 0x81, 0] = Inr (no_event, ps4) \<and>
   update_iter (default_controller, ps4) [0, 0, 0, 0, 1, 0, 0x81, 0] =
     Inr (default_controller, ps4)"
proof -
  have u: "unpack_IhBB [0, 0, 0, 0, 1, 0, 0x81, 0] = Inr (0, 1, 0x81, 0)"
    by (simp add: unpack_IhBB_def le_u32_def le_i16_def)
  have b: "(0x81 :: 8 word) AND 0x80 \<noteq> 0"
    by simp
  from init_record_ignored [OF u b, of ps4 default_controller] u b show ?thesis
    by simp
qed

subsection \<open>Buttons\<close>

text \<open>
  C9. The button handlers fire only on a press: a poll result that carries a button whose
  state is not 1 (a release, state 0) and no axis leaves every field of the controller
  unchanged.
\<close>

theorem release_changes_nothing:
  "st \<noteq> Some 1 \<Longrightarrow>
   update_body \<lparr>button = b, button_state = st, axis = None, axis_val = None\<rparr> c = Inr c"
  by (simp add: update_body_def handlers_def handler_defs pressed_def)

theorem release_changes_nothing_witness:
  "Some (0 :: int) \<noteq> Some 1 \<and>
   update_body \<lparr>button = Some ''triangle'', button_state = Some 0, axis = None,
     axis_val = None\<rparr> default_controller = Inr default_controller"
  using release_changes_nothing [of "Some 0" "Some ''triangle''" default_controller]
  by simp

text \<open>
  C6. A press of the button that toggles constant throttle (\<^verbatim>\<open>triangle\<close>) switches the
  flag and sets the throttle to \<^verbatim>\<open>max_throttle\<close> when the flag goes on and to 0 when it goes
  off. The auto-record rule then runs in both cases: with \<^verbatim>\<open>auto_record_on_throttle\<close>,
  recording becomes "the new throttle is not 0 and the mode is \<^verbatim>\<open>user\<close>", which is false
  when the flag goes off; without it, recording keeps its value. With the limit 0.3, the
  first press gives the throttle 0.3 and the second press the throttle 0.
\<close>

theorem constant_throttle_toggle:
  "update_body (button_event ''triangle'' 1) c =
     Inr (c\<lparr>throttle := (if constant_throttle c then 0 else max_throttle c),
            recording :=
              (if auto_record_on_throttle c
               then \<not> constant_throttle c \<and> max_throttle c \<noteq> 0 \<and> mode c = ''user''
               else recording c),
            constant_throttle := \<not> constant_throttle c\<rparr>) \<and>
   (max_throttle c = 0.3 \<and> \<not> constant_throttle c \<longrightarrow>
      (\<exists>c1 c2. update_body (button_event ''triangle'' 1) c = Inr c1 \<and>
         throttle c1 = 0.3 \<and> constant_throttle c1 \<and>
         recording c1 = (if auto_record_on_throttle c then mode c = ''user'' else recording c) \<and>
         update_body (button_event ''triangle'' 1) c1 = Inr c2 \<and>
         throttle c2 = 0 \<and> \<not> constant_throttle c2 \<and>
         recording c2 = (if auto_record_on_throttle c then False else recording c)))"
  by (simp add: update_body_def handlers_def handler_defs pressed_def button_event_def
      on_throttle_changes_def)

theorem constant_throttle_toggle_witness:
  "max_throttle throttle_03 = 0.3 \<and> \<not> constant_throttle throttle_03 \<and>
   auto_record_on_throttle throttle_03 \<and> mode throttle_03 = ''user'' \<and>
   \<not> recording throttle_03 \<and>
   (\<exists>c1 c2. update_body (button_event ''triangle'' 1) throttle_03 = Inr c1 \<and>
      throttle c1 = 0.3 \<and> constant_throttle c1 \<and> recording c1 \<and>
      update_body (button_event ''triangle'' 1) c1 = Inr c2 \<and>
      throttle c2 = 0 \<and> \<not> constant_throttle c2 \<and> \<not> recording c2)"
proof -
  have h: "max_throttle throttle_03 = 0.3 \<and> \<not> constant_throttle throttle_03"
    "auto_record_on_throttle throttle_03" "mode throttle_03 = ''user''"
    "\<not> recording throttle_03"
    by (simp_all add: throttle_03_def JoystickController_def)
  from constant_throttle_toggle [of throttle_03] h(1) obtain c1 c2 where
    "update_body (button_event ''triangle'' 1) throttle_03 = Inr c1"
    "throttle c1 = 0.3" "constant_throttle c1"
    "recording c1 = (if auto_record_on_throttle throttle_03 then mode throttle_03 = ''user''
       else recording throttle_03)"
    "update_body (button_event ''triangle'' 1) c1 = Inr c2"
    "throttle c2 = 0" "\<not> constant_throttle c2"
    "recording c2 = (if auto_record_on_throttle throttle_03 then False else recording throttle_03)"
    by blast
  with h show ?thesis
    by auto
qed

subsection \<open>The mode switch\<close>

text \<open>
  The handler of \<^verbatim>\<open>update\<close> that switches modes cycles user, local_angle, local, user
  when \<^verbatim>\<open>poll\<close> returns the button name \<^verbatim>\<open>option\<close> with state 1.
\<close>

lemma option_press_cycles:
  "update_body (button_event ''option'' 1) c =
     Inr (c\<lparr>mode := (if mode c = ''user'' then ''local_angle''
                      else if mode c = ''local_angle'' then ''local'' else ''user'')\<rparr>)"
  by (simp add: update_body_def handlers_def handler_defs pressed_def button_event_def)

text \<open>
  No name that \<^verbatim>\<open>Joystick.init\<close> puts into \<^verbatim>\<open>button_map\<close> is \<^verbatim>\<open>option\<close>: the table
  \<^verbatim>\<open>button_names\<close> calls the button \<^verbatim>\<open>options\<close>, and an unknown identifier gets a name
  that starts with \<^verbatim>\<open>unknown\<close>.
\<close>

lemma button_name_of_not_option: "button_name_of b \<noteq> ''option''"
  by (auto simp: button_name_of_def button_names_def split: option.splits if_splits)

lemma init_axes_button_map: "button_map (init_axes as j) = button_map j"
  by (induction as arbitrary: j) auto

lemma init_buttons_button_map:
  "button_map (init_buttons bs j) = button_map j @ map button_name_of bs"
  by (induction bs arbitrary: j) auto

lemma init_no_option: "''option'' \<notin> set (button_map (init Joystick dev))"
  by (auto simp: init_def init_buttons_button_map init_axes_button_map Joystick_def
      button_name_of_not_option [THEN not_sym])

text \<open>
  C1. On the PS4 pad the button \<^verbatim>\<open>options\<close> is button 9. The record of its press (event
  type \<open>0x01\<close>, index 9, value 1) is decoded to the name \<^verbatim>\<open>options\<close>, which the
  comparison \<^verbatim>\<open>button == 'option'\<close> of \<^verbatim>\<open>update\<close> does not match: the controller, its
  mode included, stays as it was, and only the joystick's cache records the press.
\<close>

theorem options_button_keeps_mode:
  "update_iter (default_controller, ps4) [0, 0, 0, 0, 1, 0, 0x01, 9] =
     Inr (default_controller, ps4\<lparr>button_states := (button_states ps4)(''options'' \<mapsto> 1)\<rparr>)"
  by (simp add: update_iter_def poll_def unpack_IhBB_def le_u32_def le_i16_def poll_button_def
      ps4_button_map no_event_def update_body_def handlers_def handler_defs pressed_def
      Let_def)

subsection \<open>Indices outside the tables\<close>

text \<open>
  C3 as the specification states it fails: the PS4 pad has 13 buttons, and the button
  record with index 13 makes \<^verbatim>\<open>poll\<close> raise \<^verbatim>\<open>IndexError\<close>.
\<close>

theorem poll_index_13_raises: "poll ps4 [0, 0, 0, 0, 1, 0, 0x01, 13] = Inl IndexError"
  by (simp add: poll_def unpack_IhBB_def le_u32_def le_i16_def poll_button_def
      ps4_button_map no_event_def)

text \<open>
  C3, amended. For a record without the bit \<open>0x80\<close>, an index that is not below the
  length of the table whose event-type bit is set (\<open>0x01\<close>: \<^verbatim>\<open>button_map\<close>, \<open>0x02\<close>:
  \<^verbatim>\<open>axis_map\<close>) makes \<^verbatim>\<open>poll\<close> raise \<^verbatim>\<open>IndexError\<close>; no observation is returned, and
  the iteration of \<^verbatim>\<open>update\<close> ends with the same exception.
\<close>

theorem out_of_range_index_raises:
  assumes "unpack_IhBB evbuf = Inr (tval, val, typev, number)"
    and "typev AND 0x80 = 0"
  shows "(typev AND 0x01 \<noteq> 0 \<and> length (button_map j) \<le> number \<longrightarrow>
            poll j evbuf = Inl IndexError \<and> update_iter (c, j) evbuf = Inl IndexError) \<and>
         (typev AND 0x02 \<noteq> 0 \<and> length (axis_map j) \<le> number \<longrightarrow>
            poll j evbuf = Inl IndexError \<and> update_iter (c, j) evbuf = Inl IndexError)"
proof -
  from assms(1) have ne: "evbuf \<noteq> []"
    by (auto simp: unpack_IhBB_def)
  show ?thesis
    using assms ne
    by (auto simp: poll_def update_iter_def poll_button_def poll_axis_def Let_def
        split: sum.splits if_splits)
qed

theorem out_of_range_index_raises_witness:
  "unpack_IhBB [0, 0, 0, 0, 1, 0, 0x03, 13] = Inr (0, 1, 0x03, 13) \<and>
   (0x03 :: 8 word) AND 0x80 = 0 \<and>
   (0x03 :: 8 word) AND 0x01 \<noteq> 0 \<and> length (button_map ps4) \<le> 13 \<and>
   (0x03 :: 8 word) AND 0x02 \<noteq> 0 \<and> length (axis_map ps4) \<le> 13 \<and>
   poll ps4 [0, 0, 0, 0, 1, 0, 0x03, 13] = Inl IndexError \<and>
   update_iter (default_controller, ps4) [0, 0, 0, 0, 1, 0, 0x03, 13] = Inl IndexError"
proof -
  have u: "unpack_IhBB [0, 0, 0, 0, 1, 0, 0x03, 13] = Inr (0, 1, 0x03, 13)"
    by (simp add: unpack_IhBB_def le_u32_def le_i16_def)
  have b: "(0x03 :: 8 word) AND 0x80 = 0"
    by simp
  from out_of_range_index_raises [OF u b, of ps4 default_controller] u b show ?thesis
    by (simp add: ps4_button_map ps4_axis_map)
qed

subsection \<open>Axis records\<close>

lemma poll_axis_result:
  assumes "unpack_IhBB evbuf = Inr (tval, val, typev, number)"
    and "typev AND 0x80 = 0" and "typev AND 0x02 \<noteq> 0"
    and "typev AND 0x01 = 0 \<or> number < length (button_map j)"
    and "number < length (axis_map j)" and "axis_map j ! number \<noteq> []"
  shows "\<exists>r j'. poll j evbuf = Inr (r, j') \<and> axis r = Some (axis_map j ! number) \<and>
           axis_val r = Some (real_of_int val / 32767)"
proof -
  from assms(1) have ne: "evbuf \<noteq> []"
    by (auto simp: unpack_IhBB_def)
  show ?thesis
    using assms ne
    by (auto simp: poll_def poll_button_def poll_axis_def Let_def split: sum.splits if_splits)
qed

lemma keeps_angle:
  assumes "h \<in> set (tl (handlers r))" "h x = Inr y"
  shows "angle y = angle x"
  using assms
  by (auto simp: handlers_def handler_defs on_throttle_changes_def constant_cascade_def
      split: if_splits option.splits)

lemma update_body_steering:
  assumes "axis r = Some (steering_axis c)" and "axis_val r = Some v"
  shows "\<exists>c'. update_body r c = Inr c' \<and> angle c' = steering_scale c * v"
proof -
  let ?c1 = "c\<lparr>angle := steering_scale c * v\<rparr>"
  have s: "steering_h r c = Inr ?c1"
    using assms by (simp add: steering_h_def)
  have "\<exists>c'. run_all (tl (handlers r)) ?c1 = Inr c'"
  proof (rule run_all_total)
    fix h x
    assume "h \<in> set (tl (handlers r))"
    then have "h \<in> set (handlers r)"
      by (simp add: handlers_def)
    then show "\<exists>y. h x = Inr y"
      using handler_total [of r v h x] assms(2) by simp
  qed
  then obtain c' where c': "run_all (tl (handlers r)) ?c1 = Inr c'"
    by blast
  have "angle c' = angle ?c1"
    by (rule run_all_invariant [OF c', where P = "\<lambda>x. angle x = angle ?c1"])
       (auto dest: keeps_angle)
  moreover have "update_body r c = Inr c'"
    using s c' by (simp add: update_body_def handlers_def)
  ultimately show ?thesis by simp
qed







text \<open>
  C5. A record with the axis bit whose index is that of the configured steering axis is
  decoded to the value \<^verbatim>\<open>value / 32767.0\<close> and applied without an exception, and
  afterwards the angle is \<^verbatim>\<open>steering_scale * (value / 32767.0)\<close>. This holds for every
  signed 16-bit value: nothing is clamped, and the value -32768 is passed on as
  \<open>-32768/32767\<close>, below \<open>-1\<close>.
\<close>

theorem steering_axis_record:
  assumes "unpack_IhBB evbuf = Inr (tval, val, typev, number)"
    and "typev AND 0x80 = 0" and "typev AND 0x02 \<noteq> 0"
    and "typev AND 0x01 = 0 \<or> number < length (button_map j)"
    and "number < length (axis_map j)" and "axis_map j ! number = steering_axis c"
    and "steering_axis c \<noteq> []"
  shows "\<exists>r c' j'. poll j evbuf = Inr (r, j') \<and> axis r = Some (steering_axis c) \<and>
           axis_val r = Some (real_of_int val / 32767) \<and>
           update_iter (c, j) evbuf = Inr (c', j') \<and>
           angle c' = steering_scale c * (real_of_int val / 32767)"
proof -
  from poll_axis_result [OF assms(1-5)] assms(6,7)
  obtain r j' where p: "poll j evbuf = Inr (r, j')" and a: "axis r = Some (steering_axis c)"
    and v: "axis_val r = Some (real_of_int val / 32767)"
    by auto
  from update_body_steering [OF a v] obtain c' where
    "update_body r c = Inr c'" "angle c' = steering_scale c * (real_of_int val / 32767)"
    by blast
  with p a v show ?thesis
    by (simp add: update_iter_def)
qed

theorem steering_axis_record_witness:
  "unpack_IhBB [0, 0, 0, 0, 0x00, 0x80, 0x02, 3] = Inr (0, - 32768, 0x02, 3) \<and>
   (0x02 :: 8 word) AND 0x80 = 0 \<and> (0x02 :: 8 word) AND 0x02 \<noteq> 0 \<and>
   (0x02 :: 8 word) AND 0x01 = 0 \<and>
   3 < length (axis_map ps4) \<and> axis_map ps4 ! 3 = steering_axis default_controller \<and>
   steering_axis default_controller \<noteq> [] \<and>
   (\<exists>r c' j'. poll ps4 [0, 0, 0, 0, 0x00, 0x80, 0x02, 3] = Inr (r, j') \<and>
      axis_val r = Some (- 32768 / 32767) \<and>
      update_iter (default_controller, ps4) [0, 0, 0, 0, 0x00, 0x80, 0x02, 3] = Inr (c', j') \<and>
      angle c' = - 32768 / 32767 \<and> angle c' < - 1)"
proof -
  have u: "unpack_IhBB [0, 0, 0, 0, 0x00, 0x80, 0x02, 3] = Inr (0, - 32768, 0x02, 3)"
    by (simp add: unpack_IhBB_def le_u32_def le_i16_def)
  have b: "(0x02 :: 8 word) AND 0x80 = 0" "(0x02 :: 8 word) AND 0x02 \<noteq> 0"
    by simp_all
  have b1: "(0x02 :: 8 word) AND 0x01 = 0"
    by simp
  then have b1': "(0x02 :: 8 word) AND 0x01 = 0 \<or> 3 < length (button_map ps4)"
    by simp
  have a: "3 < length (axis_map ps4)" "axis_map ps4 ! 3 = steering_axis default_controller"
    "steering_axis default_controller \<noteq> []"
    by (simp_all add: ps4_axis_map default_controller_def JoystickController_def)
  have d: "steering_scale default_controller = 1"
    by (simp add: default_controller_def JoystickController_def)
  from steering_axis_record [OF u b b1' a] obtain r c' j' where
    "poll ps4 [0, 0, 0, 0, 0x00, 0x80, 0x02, 3] = Inr (r, j')"
    "axis_val r = Some (- 32768 / 32767)"
    "update_iter (default_controller, ps4) [0, 0, 0, 0, 0x00, 0x80, 0x02, 3] = Inr (c', j')"
    "angle c' = - 32768 / 32767"
    using d by auto
  moreover from this have "angle c' < - 1"
    by simp
  ultimately show ?thesis
    using u b b1 a by blast
qed

subsection \<open>The auto-record rule\<close>


lemma before_option_keeps_mode:
  assumes "h \<in> set (take 4 (handlers r))" "h x = Inr y"
  shows "mode y = mode x"
  using assms
  by (auto simp: handlers_def handler_defs on_throttle_changes_def split: if_splits option.splits)

lemma after_option_keeps_mode:
  assumes "h \<in> set (drop 5 (handlers r))" "h x = Inr y"
  shows "mode y = mode x"
  using assms
  by (auto simp: handlers_def handler_defs on_throttle_changes_def constant_cascade_def
      pressed_def split: if_splits)



lemma reach_moving_user:
  "update_body (axis_event ''ly'' (- 1)) default_controller = Inr moving_user"
  by (simp add: update_body_def handlers_def handler_defs pressed_def axis_event_def
      on_throttle_changes_def default_controller_def JoystickController_def moving_user_def)

text \<open>
  The handler that switches modes does not call \<^verbatim>\<open>on_throttle_changes\<close>: handed the
  name \<^verbatim>\<open>option\<close> in the state \<open>moving_user\<close> (auto-record on, throttle 1, mode \<^verbatim>\<open>user\<close>,
  recording on), it changes the mode to \<^verbatim>\<open>local_angle\<close> and leaves recording on. No
  record is decoded to that name (\<open>init_no_option\<close>).
\<close>

lemma mode_switch_keeps_recording:
  "auto_record_on_throttle moving_user \<and>
   update_body (button_event ''option'' 1) moving_user =
     Inr (moving_user\<lparr>mode := ''local_angle''\<rparr>) \<and>
   mode (moving_user\<lparr>mode := ''local_angle''\<rparr>) \<noteq> mode moving_user \<and>
   recording (moving_user\<lparr>mode := ''local_angle''\<rparr>) \<noteq>
     (throttle (moving_user\<lparr>mode := ''local_angle''\<rparr>) \<noteq> 0 \<and>
      mode (moving_user\<lparr>mode := ''local_angle''\<rparr>) = ''user'')"
  by (simp add: update_body_def handlers_def handler_defs pressed_def button_event_def
      default_controller_def JoystickController_def moving_user_def)


subsection \<open>The adjustable scales\<close>

lemma py_round_two_decimals: "two_decimals (py_round x 2)"
  by (simp add: two_decimals_def py_round_def Let_def)

lemma py_round_lower:
  assumes "real_of_int a / 100 \<le> x"
  shows "real_of_int a / 100 \<le> py_round x 2"
proof -
  from assms have "real_of_int a \<le> x * 100" by simp
  then have "a \<le> \<lfloor>x * 100\<rfloor>" by (simp add: le_floor_iff)
  then show ?thesis
    by (auto simp: py_round_def Let_def divide_le_cancel)
qed

lemma py_round_upper:
  assumes "x \<le> real_of_int b / 100"
  shows "py_round x 2 \<le> real_of_int b / 100"
proof -
  from assms have le: "x * 100 \<le> real_of_int b" by simp
  then have fl: "\<lfloor>x * 100\<rfloor> \<le> b" by (simp add: floor_le_iff)
  show ?thesis
  proof (cases "\<lfloor>x * 100\<rfloor> = b")
    case True
    then have "x * 100 - of_int \<lfloor>x * 100\<rfloor> \<le> 0" using le by simp
    then show ?thesis using True by (auto simp: py_round_def Let_def divide_le_cancel)
  next
    case False
    with fl have "\<lfloor>x * 100\<rfloor> + 1 \<le> b" by simp
    then show ?thesis using fl by (auto simp: py_round_def Let_def divide_le_cancel)
  qed
qed

lemma py_round_bounds:
  "0 \<le> x \<Longrightarrow> 0 \<le> py_round x 2"
  "x \<le> 1 \<Longrightarrow> py_round x 2 \<le> 1"
  "x \<le> 0 \<Longrightarrow> py_round x 2 \<le> 0"
  "- 1 \<le> x \<Longrightarrow> - 1 \<le> py_round x 2"
  using py_round_lower [of 0 x] py_round_upper [of x 100] py_round_upper [of x 0]
    py_round_lower [of "- 100" x]
  by simp_all

lemma axis_handlers_scales_ok:
  assumes "h \<in> set (take 4 (handlers r))" "h x = Inr y" "scales_ok x"
  shows "scales_ok y"
  using assms
  by (auto simp: scales_ok_def handlers_def handler_defs on_throttle_changes_def
      intro!: py_round_bounds split: if_splits option.splits)

lemma button_handlers_scales_ok:
  assumes "h \<in> set (drop 4 (handlers r))" "h x = Inr y" "scales_ok x"
  shows "scales_ok y"
  using assms
  by (auto simp: scales_ok_def handlers_def handler_defs on_throttle_changes_def
      constant_cascade_def intro!: py_round_bounds split: if_splits)

lemma handler_scales_ok:
  assumes "h \<in> set (handlers r)" "h x = Inr y" "scales_ok x"
  shows "scales_ok y"
proof -
  have "set (handlers r) = set (take 4 (handlers r)) \<union> set (drop 4 (handlers r))"
    by (metis append_take_drop_id set_append)
  with assms(1) consider "h \<in> set (take 4 (handlers r))" | "h \<in> set (drop 4 (handlers r))"
    by blast
  then show ?thesis
    using assms(2,3) axis_handlers_scales_ok button_handlers_scales_ok by cases blast+
qed

lemma handler_rounded:
  assumes "h \<in> set (handlers r)" "h x = Inr y"
  shows "(steering_scale y = steering_scale x \<or> two_decimals (steering_scale y)) \<and>
         (throttle_scale y = throttle_scale x \<or> two_decimals (throttle_scale y)) \<and>
         (max_throttle y = max_throttle x \<or> two_decimals (max_throttle y))"
  using assms
  by (auto simp: handlers_def handler_defs on_throttle_changes_def constant_cascade_def
      py_round_two_decimals split: if_splits option.splits)

lemma handler_scales_inv:
  assumes "h \<in> set (handlers r)" "h x = Inr y" "scales_inv c x"
  shows "scales_inv c y"
  using handler_scales_ok [OF assms(1,2)] handler_rounded [OF assms(1,2)] assms(3)
  by (auto simp: scales_inv_def)

lemma update_body_scales_inv:
  assumes "update_body r x = Inr y" "scales_inv c x"
  shows "scales_inv c y"
proof (rule run_all_invariant [where hs = "handlers r" and s = x and P = "scales_inv c"])
  show "run_all (handlers r) x = Inr y"
    using assms(1) by (simp add: update_body_def)
  show "scales_inv c x" by fact
  show "\<And>h u w. h \<in> set (handlers r) \<Longrightarrow> h u = Inr w \<Longrightarrow> scales_inv c u \<Longrightarrow> scales_inv c w"
    by (rule handler_scales_inv)
qed

lemma update_all_scales_inv:
  assumes "update_all x rs = Inr y" "scales_inv c x"
  shows "scales_inv c y"
  using assms
proof (induction rs arbitrary: x)
  case Nil
  then show ?case by simp
next
  case (Cons r rs)
  from Cons.prems(1) obtain u where u: "update_body r x = Inr u" and rest: "update_all u rs = Inr y"
    by (auto split: sum.splits)
  from update_body_scales_inv [OF u Cons.prems(2)] have "scales_inv c u" .
  with rest show ?case by (rule Cons.IH)
qed

lemma update_all_total:
  assumes "list_all (\<lambda>r. axis r = None \<or> axis_val r \<noteq> None) rs"
  shows "\<exists>y. update_all x rs = Inr y"
  using assms
proof (induction rs arbitrary: x)
  case Nil
  then show ?case by simp
next
  case (Cons r rs)
  from Cons.prems have "axis r = None \<or> (\<exists>v. axis_val r = Some v)"
    by auto
  then obtain u where u: "update_body r x = Inr u"
    using update_body_total [of r _ x] by blast
  from Cons.IH [of u] Cons.prems obtain y where "update_all u rs = Inr y"
    by auto
  with u show ?case by simp
qed

text \<open>
  C7. From a state whose three scale fields are in their ranges, after any sequence of
  poll results (any adjustments by \<^verbatim>\<open>dpadx\<close>, \<^verbatim>\<open>dpady\<close> and the buttons \<^verbatim>\<open>r1\<close>, \<^verbatim>\<open>l1\<close>,
  \<^verbatim>\<open>r2\<close>, \<^verbatim>\<open>l2\<close> among them) \<^verbatim>\<open>steering_scale\<close> is in \<open>[0, 1]\<close>, \<^verbatim>\<open>throttle_scale\<close> in
  \<open>[-1, 0]\<close> and \<^verbatim>\<open>max_throttle\<close> in \<open>[0, 1]\<close>, and each of them is the value it started
  with or a number rounded to two decimals. The sequence is applied without an exception
  when every result that names an axis carries its value.
\<close>

theorem scales_stay_in_range:
  assumes "scales_ok c"
  shows "((list_all (\<lambda>r. axis r = None \<or> axis_val r \<noteq> None) rs) \<longrightarrow>
            (\<exists>c'. update_all c rs = Inr c')) \<and>
         (\<forall>c'. update_all c rs = Inr c' \<longrightarrow>
            0 \<le> steering_scale c' \<and> steering_scale c' \<le> 1 \<and>
            - 1 \<le> throttle_scale c' \<and> throttle_scale c' \<le> 0 \<and>
            0 \<le> max_throttle c' \<and> max_throttle c' \<le> 1 \<and>
            (steering_scale c' = steering_scale c \<or> two_decimals (steering_scale c')) \<and>
            (throttle_scale c' = throttle_scale c \<or> two_decimals (throttle_scale c')) \<and>
            (max_throttle c' = max_throttle c \<or> two_decimals (max_throttle c')))"
proof (rule conjI)
  show "(list_all (\<lambda>r. axis r = None \<or> axis_val r \<noteq> None) rs) \<longrightarrow>
          (\<exists>c'. update_all c rs = Inr c')"
    using update_all_total [of rs c] by blast
next
  from assms have start: "scales_inv c c"
    by (simp add: scales_inv_def)
  show "\<forall>c'. update_all c rs = Inr c' \<longrightarrow>
            0 \<le> steering_scale c' \<and> steering_scale c' \<le> 1 \<and>
            - 1 \<le> throttle_scale c' \<and> throttle_scale c' \<le> 0 \<and>
            0 \<le> max_throttle c' \<and> max_throttle c' \<le> 1 \<and>
            (steering_scale c' = steering_scale c \<or> two_decimals (steering_scale c')) \<and>
            (throttle_scale c' = throttle_scale c \<or> two_decimals (throttle_scale c')) \<and>
            (max_throttle c' = max_throttle c \<or> two_decimals (max_throttle c'))"
  proof (intro allI impI)
    fix c'
    assume "update_all c rs = Inr c'"
    then have "scales_inv c c'"
      using start by (rule update_all_scales_inv)
    then show "0 \<le> steering_scale c' \<and> steering_scale c' \<le> 1 \<and>
            - 1 \<le> throttle_scale c' \<and> throttle_scale c' \<le> 0 \<and>
            0 \<le> max_throttle c' \<and> max_throttle c' \<le> 1 \<and>
            (steering_scale c' = steering_scale c \<or> two_decimals (steering_scale c')) \<and>
            (throttle_scale c' = throttle_scale c \<or> two_decimals (throttle_scale c')) \<and>
            (max_throttle c' = max_throttle c \<or> two_decimals (max_throttle c'))"
      by (simp add: scales_inv_def scales_ok_def)
  qed
qed

lemma adjustments_result:
  "update_all default_controller adjustments =
     Inr (default_controller\<lparr>steering_scale := 0.95, throttle_scale := - 0.9, max_throttle := 0.99\<rparr>)"
  by (simp add: adjustments_def update_body_def handlers_def handler_defs pressed_def
      axis_event_def button_event_def default_controller_def JoystickController_def
      constant_cascade_def py_round_def Let_def)

theorem scales_stay_in_range_witness:
  "scales_ok default_controller \<and>
   list_all (\<lambda>r. axis r = None \<or> axis_val r \<noteq> None) adjustments \<and>
   update_all default_controller adjustments =
     Inr (default_controller\<lparr>steering_scale := 0.95, throttle_scale := - 0.9,
            max_throttle := 0.99\<rparr>) \<and>
   two_decimals 0.95 \<and> two_decimals (- 0.9) \<and> two_decimals 0.99"
proof -
  have ok: "scales_ok default_controller"
    by (simp add: scales_ok_def default_controller_def JoystickController_def)
  have wf: "list_all (\<lambda>r. axis r = None \<or> axis_val r \<noteq> None) adjustments"
    by (simp add: adjustments_def axis_event_def button_event_def)
  from scales_stay_in_range [OF ok, of adjustments] adjustments_result
  have "two_decimals 0.95 \<and> two_decimals (- 0.9) \<and> two_decimals 0.99"
    by (simp add: default_controller_def JoystickController_def)
  with ok wf adjustments_result show ?thesis
    by simp
qed

subsection \<open>The caches of the joystick\<close>

lemma init_axes_maps:
  "button_map (init_axes as j) = button_map j \<and> button_states (init_axes as j) = button_states j \<and>
   axis_map (init_axes as j) = axis_map j @ map axis_name_of as"
  by (induction as arbitrary: j) auto

lemma init_buttons_maps:
  "axis_map (init_buttons bs j) = axis_map j \<and> axis_states (init_buttons bs j) = axis_states j \<and>
   button_map (init_buttons bs j) = button_map j @ map button_name_of bs"
  by (induction bs arbitrary: j) auto

lemma init_axes_states:
  assumes "\<And>n. axis_states j n = (if n \<in> set (axis_map j) then Some 0 else None)"
  shows "axis_states (init_axes as j) n = (if n \<in> set (axis_map (init_axes as j)) then Some 0 else None)"
  using assms by (induction as arbitrary: j) auto

lemma init_buttons_states:
  assumes "\<And>n. button_states j n = (if n \<in> set (button_map j) then Some 0 else None)"
  shows "button_states (init_buttons bs j) n = (if n \<in> set (button_map (init_buttons bs j)) then Some 0 else None)"
  using assms by (induction bs arbitrary: j) auto

lemma init_caches:
  "axis_states (init Joystick dev) n =
     (if n \<in> set (axis_map (init Joystick dev)) then Some 0 else None)"
  "button_states (init Joystick dev) b =
     (if b \<in> set (button_map (init Joystick dev)) then Some 0 else None)"
proof -
  show "axis_states (init Joystick dev) n =
     (if n \<in> set (axis_map (init Joystick dev)) then Some 0 else None)"
    using init_axes_states [where j = Joystick and n = n and as = "take (num_axes dev) (axmap_buf dev)"]
    by (simp add: init_def init_buttons_maps Joystick_def)
  show "button_states (init Joystick dev) b =
     (if b \<in> set (button_map (init Joystick dev)) then Some 0 else None)"
    unfolding init_def
    by (rule init_buttons_states) (simp add: init_axes_maps Joystick_def)
qed

lemma poll_effect:
  assumes "poll j evbuf = Inr (r, j')"
  shows "axis_map j' = axis_map j \<and> button_map j' = button_map j \<and>
     axis_states j' =
       (case axis r of
          Some a \<Rightarrow> (case axis_val r of Some v \<Rightarrow> (axis_states j)(a \<mapsto> v) | None \<Rightarrow> axis_states j)
        | None \<Rightarrow> axis_states j) \<and>
     button_states j' =
       (case button r of
          Some b \<Rightarrow> (case button_state r of Some v \<Rightarrow> (button_states j)(b \<mapsto> v) | None \<Rightarrow> button_states j)
        | None \<Rightarrow> button_states j)"
  using assms
  by (auto simp: poll_def poll_button_def poll_axis_def Let_def no_event_def
      split: if_splits sum.splits prod.splits)

lemma poll_names:
  assumes "poll j evbuf = Inr (r, j')"
  shows "(axis r = None \<or> the (axis r) \<in> set (axis_map j)) \<and>
         (button r = None \<or> the (button r) \<in> set (button_map j))"
  using assms
  by (auto simp: poll_def poll_button_def poll_axis_def Let_def no_event_def
      split: if_splits sum.splits prod.splits) (metis nth_mem)+

lemma init_maps:
  "axis_map (init Joystick dev) = map axis_name_of (take (num_axes dev) (axmap_buf dev))"
  "button_map (init Joystick dev) = map button_name_of (take (num_buttons dev) (btnmap_buf dev))"
  by (simp_all add: init_def init_axes_maps init_buttons_maps Joystick_def)

lemma poll_all_caches:
  assumes "poll_all j evbufs = Inr (rs, j')"
    and "\<And>n. axis_states j n = (if n \<in> set (axis_map j) then Some (da n) else None)"
    and "\<And>n. button_states j n = (if n \<in> set (button_map j) then Some (db n) else None)"
  shows "axis_map j' = axis_map j \<and> button_map j' = button_map j \<and>
     (\<forall>n. axis_states j' n =
        (if n \<in> set (axis_map j) then Some (latest_axis_val rs n (da n)) else None)) \<and>
     (\<forall>n. button_states j' n =
        (if n \<in> set (button_map j) then Some (latest_button_state rs n (db n)) else None))"
  using assms
proof (induction evbufs arbitrary: j rs da db)
  case Nil
  then show ?case by simp
next
  case (Cons e es)
  from Cons.prems(1) obtain r j1 rs' where
    p: "poll j e = Inr (r, j1)" and rest: "poll_all j1 es = Inr (rs', j')" and rs: "rs = r # rs'"
    by (auto split: sum.splits prod.splits)
  let ?da = "\<lambda>n. if axis r = Some n then (case axis_val r of Some v \<Rightarrow> v | None \<Rightarrow> da n) else da n"
  let ?db = "\<lambda>n. if button r = Some n then (case button_state r of Some v \<Rightarrow> v | None \<Rightarrow> db n) else db n"
  note eff = poll_effect [OF p] and names = poll_names [OF p]
  have a1: "axis_states j1 n = (if n \<in> set (axis_map j1) then Some (?da n) else None)" for n
    using eff names Cons.prems(2) by (auto split: option.splits)
  have b1: "button_states j1 n = (if n \<in> set (button_map j1) then Some (?db n) else None)" for n
    using eff names Cons.prems(3) by (auto split: option.splits)
  from Cons.IH [OF rest a1 b1] eff show ?case
    by (simp add: rs)
qed

text \<open>
  C10. Let \<open>j\<close> be the joystick after \<^verbatim>\<open>init\<close> and any sequence of successful calls of
  \<^verbatim>\<open>poll\<close>. Its maps are the names of the axes and buttons the device reported;
  \<^verbatim>\<open>axis_states\<close> has an entry exactly for the names of \<^verbatim>\<open>axis_map\<close>, the normalised value
  most recently decoded for that name and 0.0 before any was; \<^verbatim>\<open>button_states\<close> likewise
  holds the most recent state of every name of \<^verbatim>\<open>button_map\<close>, 0 at first. One more call
  of \<^verbatim>\<open>poll\<close> leaves the maps and every entry other than those of the names it returns
  unchanged.
\<close>

theorem poll_maintains_caches:
  assumes "poll_all (init Joystick dev) evbufs = Inr (rs, j)" and "poll j evbuf = Inr (r, j')"
  shows "axis_map j = map axis_name_of (take (num_axes dev) (axmap_buf dev)) \<and>
     button_map j = map button_name_of (take (num_buttons dev) (btnmap_buf dev)) \<and>
     axis_states j n = (if n \<in> set (axis_map j) then Some (latest_axis_val rs n 0) else None) \<and>
     button_states j b =
       (if b \<in> set (button_map j) then Some (latest_button_state rs b 0) else None) \<and>
     axis_map j' = axis_map j \<and> button_map j' = button_map j \<and>
     (axis r \<noteq> Some n \<longrightarrow> axis_states j' n = axis_states j n) \<and>
     (button r \<noteq> Some b \<longrightarrow> button_states j' b = button_states j b)"
proof -
  from poll_all_caches [OF assms(1), of "\<lambda>_. 0" "\<lambda>_. 0"] init_caches [of dev]
  have "axis_map j = axis_map (init Joystick dev)" "button_map j = button_map (init Joystick dev)"
    "axis_states j n = (if n \<in> set (axis_map j) then Some (latest_axis_val rs n 0) else None)"
    "button_states j b =
       (if b \<in> set (button_map j) then Some (latest_button_state rs b 0) else None)"
    by simp_all
  moreover from poll_effect [OF assms(2)]
  have "axis_map j' = axis_map j" "button_map j' = button_map j"
    "axis r \<noteq> Some n \<longrightarrow> axis_states j' n = axis_states j n"
    "button r \<noteq> Some b \<longrightarrow> button_states j' b = button_states j b"
    by (auto split: option.splits)
  ultimately show ?thesis
    by (simp add: init_maps)
qed

lemma ps4_poll_all:
  "poll_all ps4 [[0, 0, 0, 0, 0x00, 0x80, 0x02, 3], [0, 0, 0, 0, 1, 0, 0x01, 9]] =
     Inr ([axis_event ''rx'' (- 32768 / 32767), button_event ''options'' 1], ps4_polled)"
  by (simp add: poll_def unpack_IhBB_def le_u32_def le_i16_def poll_button_def poll_axis_def
      ps4_button_map ps4_axis_map no_event_def Let_def axis_event_def button_event_def
      ps4_polled_def)

lemma ps4_poll_ly:
  "poll ps4_polled [0, 0, 0, 0, 0xff, 0x7f, 0x02, 1] =
     Inr (axis_event ''ly'' 1, ps4_polled\<lparr>axis_states := (axis_states ps4_polled)(''ly'' \<mapsto> 1)\<rparr>)"
  by (simp add: poll_def unpack_IhBB_def le_u32_def le_i16_def poll_button_def poll_axis_def
      ps4_button_map ps4_axis_map no_event_def Let_def axis_event_def button_event_def
      ps4_polled_def)

theorem poll_maintains_caches_witness:
  "poll_all (init Joystick ps4_device)
     [[0, 0, 0, 0, 0x00, 0x80, 0x02, 3], [0, 0, 0, 0, 1, 0, 0x01, 9]] =
     Inr ([axis_event ''rx'' (- 32768 / 32767), button_event ''options'' 1], ps4_polled) \<and>
   poll ps4_polled [0, 0, 0, 0, 0xff, 0x7f, 0x02, 1] =
     Inr (axis_event ''ly'' 1, ps4_polled\<lparr>axis_states := (axis_states ps4_polled)(''ly'' \<mapsto> 1)\<rparr>) \<and>
   axis_states ps4_polled ''rx'' = Some (- 32768 / 32767) \<and>
   button_states ps4_polled ''options'' = Some 1 \<and>
   axis (axis_event ''ly'' 1) \<noteq> Some ''rx'' \<and>
   button (axis_event ''ly'' 1) \<noteq> Some ''options'' \<and>
   axis_states (ps4_polled\<lparr>axis_states := (axis_states ps4_polled)(''ly'' \<mapsto> 1)\<rparr>) ''rx'' =
     axis_states ps4_polled ''rx'' \<and>
   button_states (ps4_polled\<lparr>axis_states := (axis_states ps4_polled)(''ly'' \<mapsto> 1)\<rparr>)
     ''options'' = button_states ps4_polled ''options''"
proof -
  have a: "poll_all (init Joystick ps4_device)
     [[0, 0, 0, 0, 0x00, 0x80, 0x02, 3], [0, 0, 0, 0, 1, 0, 0x01, 9]] =
     Inr ([axis_event ''rx'' (- 32768 / 32767), button_event ''options'' 1], ps4_polled)"
    using ps4_poll_all by (simp add: ps4_def)
  have m: "''rx'' \<in> set (axis_map ps4_polled)" "''options'' \<in> set (button_map ps4_polled)"
    by (simp_all add: ps4_polled_def ps4_axis_map ps4_button_map)
  have n: "axis (axis_event ''ly'' 1) \<noteq> Some ''rx''"
    "button (axis_event ''ly'' 1) \<noteq> Some ''options''"
    by (simp_all add: axis_event_def)
  from poll_maintains_caches [OF a ps4_poll_ly, of "''rx''" "''options''"] m n
  have "axis_states ps4_polled ''rx'' = Some (- 32768 / 32767)"
    "button_states ps4_polled ''options'' = Some 1"
    "axis_states (ps4_polled\<lparr>axis_states := (axis_states ps4_polled)(''ly'' \<mapsto> 1)\<rparr>) ''rx'' =
     axis_states ps4_polled ''rx''"
    "button_states (ps4_polled\<lparr>axis_states := (axis_states ps4_polled)(''ly'' \<mapsto> 1)\<rparr>)
     ''options'' = button_states ps4_polled ''options''"
    by (simp_all add: axis_event_def button_event_def)
  with a ps4_poll_ly n show ?thesis
    by blast
qed

subsection \<open>The mode under the loop of update\<close>

text \<open>
  The mode changes only in the handler guarded by the name \<^verbatim>\<open>option\<close>, and \<^verbatim>\<open>poll\<close>
  returns only names of \<^verbatim>\<open>button_map\<close>.
\<close>

lemma option_h_not_pressed: "\<not> pressed r ''option'' \<Longrightarrow> option_h r x = Inr x"
  by (simp add: option_h_def)

lemma update_body_keeps_mode:
  assumes "\<not> pressed r ''option''" and "update_body r c = Inr c'"
  shows "mode c' = mode c"
proof -
  from assms obtain x where
    x: "run_all (take 4 (handlers r)) c = Inr x"
    and c': "run_all (drop 5 (handlers r)) x = Inr c'"
    by (auto simp: update_body_split option_h_not_pressed split: sum.splits)
  have "mode x = mode c"
    by (rule run_all_invariant [OF x, where P = "\<lambda>s. mode s = mode c"])
       (auto dest: before_option_keeps_mode)
  moreover have "mode c' = mode x"
    by (rule run_all_invariant [OF c', where P = "\<lambda>s. mode s = mode x"])
       (auto dest: after_option_keeps_mode)
  ultimately show ?thesis by simp
qed

lemma update_iter_keeps_mode:
  assumes "''option'' \<notin> set (button_map j)" and "update_iter (c, j) evbuf = Inr (c', j')"
  shows "mode c' = mode c \<and> button_map j' = button_map j"
proof -
  from assms(2) obtain r where p: "poll j evbuf = Inr (r, j')" and u: "update_body r c = Inr c'"
    by (auto simp: update_iter_def split: sum.splits prod.splits)
  from poll_names [OF p] assms(1) have "\<not> pressed r ''option''"
    by (auto simp: pressed_def)
  with u have "mode c' = mode c"
    by (rule update_body_keeps_mode [rotated])
  with poll_effect [OF p] show ?thesis by simp
qed

lemma update_loop_keeps_mode:
  assumes "''option'' \<notin> set (button_map j)" and "update_loop (c, j) evbufs = Inr (c', j')"
  shows "mode c' = mode c"
  using assms
proof (induction evbufs arbitrary: c j)
  case Nil
  then show ?case by simp
next
  case (Cons e es)
  from Cons.prems(2) obtain c1 j1 where
    s: "update_iter (c, j) e = Inr (c1, j1)" and rest: "update_loop (c1, j1) es = Inr (c', j')"
    by (auto split: sum.splits)
  from update_iter_keeps_mode [OF Cons.prems(1) s]
  have "mode c1 = mode c" "''option'' \<notin> set (button_map j1)"
    using Cons.prems(1) by simp_all
  with Cons.IH [OF _ rest] show ?case by simp
qed

text \<open>
  However many records the loop of \<^verbatim>\<open>update\<close> reads from a joystick that \<^verbatim>\<open>init\<close> set
  up, the mode stays the one the controller started with.
\<close>

lemma mode_never_changes:
  "update_loop (c, init Joystick dev) evbufs = Inr (c', j') \<Longrightarrow> mode c' = mode c"
  using init_no_option by (rule update_loop_keeps_mode)

subsection \<open>The auto-record rule under the loop of update\<close>





end
